theory Spec2Isabelle
  imports Complex_Main
begin

section \<open>The typed table store: data types (Strategy pattern)\<close>

text \<open>
  The table store of the repository: a closed set of column types, each with a
  \<open>validate\<close> predicate on the textual value, columns with constraint flags, rows as
  maps from column name to text, and a table with \<open>insert\<close>, \<open>count\<close>, \<open>sum\<close> and
  \<open>avg\<close>. A \<open>std::string\<close> is a \<open>string\<close> (a list of bytes).
\<close>

subsection \<open>Character classes of the C library, in the "C" locale\<close>

text \<open>
  \<open>isdigit\<close> holds of the ten characters \<open>0\<close> to \<open>9\<close> (codes 48 to 57) and of
  nothing else; \<open>isspace\<close> holds of space, \<open>\t\<close>, \<open>\n\<close>, \<open>\v\<close>, \<open>\f\<close> and \<open>\r\<close>.
\<close>

definition isdigit :: "char \<Rightarrow> bool" where
  "isdigit c = (48 \<le> (of_char c :: nat) \<and> (of_char c :: nat) \<le> 57)"

definition isspace :: "char \<Rightarrow> bool" where
  "isspace c = (c = CHR 0x20 \<or> c = CHR 0x09 \<or> c = CHR 0x0A \<or> c = CHR 0x0B
                \<or> c = CHR 0x0C \<or> c = CHR 0x0D)"

subsection \<open>\<open>std::stoi\<close>\<close>

text \<open>
  \<open>std::stoi(str, &pos)\<close> in base 10, as the C++ standard defines it through
  \<open>strtol\<close>: leading white space is skipped, one optional sign is read, then the
  longest run of decimal digits. With no digit it throws \<open>std::invalid_argument\<close>;
  with a value outside the range of \<open>int\<close> it throws \<open>std::out_of_range\<close>;
  otherwise it returns the value and stores in \<open>pos\<close> the number of characters
  consumed, white space and sign included. \<open>int\<close> has 32 bits. The parse stops at the
  first character that is not a digit, so also at a NUL byte inside the string, where
  \<open>strtol\<close> sees the end of the C string.
\<close>

datatype stoi_exception = invalid_argument | out_of_range

definition INT_MIN :: int where
  "INT_MIN = - 2147483648"

definition INT_MAX :: int where
  "INT_MAX = 2147483647"

definition digit_value :: "char \<Rightarrow> int" where
  "digit_value c = int (of_char c) - 48"

fun digits_value :: "int \<Rightarrow> string \<Rightarrow> int" where
  "digits_value acc [] = acc"
| "digits_value acc (c # cs) = digits_value (10 * acc + digit_value c) cs"

definition read_sign :: "string \<Rightarrow> bool \<times> string" where
  "read_sign s =
     (case s of
        [] \<Rightarrow> (False, [])
      | c # cs \<Rightarrow>
          if c = CHR ''-'' then (True, cs)
          else if c = CHR ''+'' then (False, cs)
          else (False, s))"

definition stoi :: "string \<Rightarrow> stoi_exception + (int \<times> nat)" where
  "stoi str =
     (let s = dropWhile isspace str;
          (negative, r) = read_sign s;
          ds = takeWhile isdigit r;
          v = (if negative then - digits_value 0 ds else digits_value 0 ds)
      in if ds = [] then Inl invalid_argument
         else if v < INT_MIN \<or> INT_MAX < v then Inl out_of_range
         else Inr (v, (length str - length r) + length ds))"

subsection \<open>The four column types\<close>

datatype DataType = IntegerType | StringType | BooleanType | DateType

definition IntegerType_validate :: "string \<Rightarrow> bool" where
  "IntegerType_validate value =
     (if value = [] then False
      else case stoi value of
             Inr (v, pos) \<Rightarrow> pos = length value
           | Inl e \<Rightarrow> False)"

definition StringType_validate :: "string \<Rightarrow> bool" where
  "StringType_validate value = True"

definition BooleanType_validate :: "string \<Rightarrow> bool" where
  "BooleanType_validate value =
     (value = ''true'' \<or> value = ''false'' \<or> value = ''1'' \<or> value = ''0'')"

fun DateType_digits :: "nat list \<Rightarrow> string \<Rightarrow> bool" where
  "DateType_digits [] value = True"
| "DateType_digits (i # is) value =
     (if \<not> isdigit (value ! i) then False else DateType_digits is value)"

definition DateType_validate :: "string \<Rightarrow> bool" where
  "DateType_validate value =
     (if length value \<noteq> 10 then False
      else if value ! 4 \<noteq> CHR ''-'' \<or> value ! 7 \<noteq> CHR ''-'' then False
      else DateType_digits [0, 1, 2, 3, 5, 6, 8, 9] value)"

fun validate :: "DataType \<Rightarrow> string \<Rightarrow> bool" where
  "validate IntegerType value = IntegerType_validate value"
| "validate StringType value = StringType_validate value"
| "validate BooleanType value = BooleanType_validate value"
| "validate DateType value = DateType_validate value"

fun getTypeName :: "DataType \<Rightarrow> string" where
  "getTypeName IntegerType = ''Integer''"
| "getTypeName StringType = ''String''"
| "getTypeName BooleanType = ''Boolean''"
| "getTypeName DateType = ''Date''"

section \<open>Database core classes\<close>

subsection \<open>Exceptions\<close>

text \<open>
  Every failure of the store is a \<open>std::runtime_error\<close> carrying a message. The three
  messages of \<open>Table::insert\<close> and the two of the registry are built here as the source
  builds them; they are named after the error kinds they stand for.
\<close>

datatype exception = runtime_error string

definition MissingPrimaryKeyValue :: "string \<Rightarrow> exception" where
  "MissingPrimaryKeyValue column =
     runtime_error (''Invalid INSERT: Missing value for PRIMARY KEY column ''
                    @ [CHR 0x27] @ column @ [CHR 0x27])"

definition MissingRequiredValue :: "string \<Rightarrow> exception" where
  "MissingRequiredValue column =
     runtime_error (''Invalid INSERT: Missing value for NOT NULL column ''
                    @ [CHR 0x27] @ column @ [CHR 0x27])"

definition InvalidColumnValue :: "string \<Rightarrow> string \<Rightarrow> exception" where
  "InvalidColumnValue value column =
     runtime_error (''Invalid value '' @ [CHR 0x27] @ value @ [CHR 0x27]
                    @ '' for column '' @ [CHR 0x27] @ column @ [CHR 0x27])"

definition DuplicateTableName :: "string \<Rightarrow> exception" where
  "DuplicateTableName n =
     runtime_error (''Table with name '' @ [CHR 0x27] @ n @ [CHR 0x27] @ '' already exists.'')"

definition TableNotFound :: "string \<Rightarrow> exception" where
  "TableNotFound n =
     runtime_error (''Table with name '' @ [CHR 0x27] @ n @ [CHR 0x27] @ '' not found.'')"

subsection \<open>Column and Row\<close>

text \<open>
  A column is built by its constructor from name, type, nullable flag, primary-key flag
  and optional foreign key, and read through its getters; where the source leaves an
  argument out, the constructor takes nullable, not a primary key and no foreign key.
  A row wraps the map from column name to text.
\<close>

datatype Column =
  Column (getName: string) (getType: DataType) (isNullable: bool) (isPrimaryKey: bool)
         (getForeignKey: "(string \<times> string) option")

definition Column_validate :: "Column \<Rightarrow> string \<Rightarrow> bool" where
  "Column_validate col value =
     (if value = [] then isNullable col else validate (getType col) value)"

datatype Row = Row (getData: "string \<rightharpoonup> string")

subsection \<open>Table\<close>

record Table =
  name :: string
  columns :: "Column list"
  rows :: "Row list"

definition Table_ctor :: "string \<Rightarrow> Column list \<Rightarrow> Table" where
  "Table_ctor n c = \<lparr>name = n, columns = c, rows = []\<rparr>"

text \<open>
  The loop of \<open>Table::insert\<close> over the columns, in schema order, with the row under
  construction as accumulator. A throw leaves the loop at once.
\<close>

fun insert_loop ::
  "Column list \<Rightarrow> (string \<rightharpoonup> string) \<Rightarrow> (string \<rightharpoonup> string) \<Rightarrow> exception + (string \<rightharpoonup> string)"
where
  "insert_loop [] values rowData = Inr rowData"
| "insert_loop (col # cols) values rowData =
     (case values (getName col) of
        None \<Rightarrow>
          if isPrimaryKey col then Inl (MissingPrimaryKeyValue (getName col))
          else if \<not> isNullable col then Inl (MissingRequiredValue (getName col))
          else insert_loop cols values (rowData(getName col \<mapsto> []))
      | Some value \<Rightarrow>
          if \<not> Column_validate col value then Inl (InvalidColumnValue value (getName col))
          else insert_loop cols values (rowData(getName col \<mapsto> value)))"

text \<open>
  \<open>Table::insert\<close> returns nothing and mutates the table, or throws. The model returns
  the outcome together with the table as it is after the call; the only mutation of the
  source is the \<open>emplace_back\<close> after the loop.
\<close>

definition Table_insert :: "Table \<Rightarrow> (string \<rightharpoonup> string) \<Rightarrow> (exception + unit) \<times> Table" where
  "Table_insert t values =
     (case insert_loop (columns t) values Map.empty of
        Inl e \<Rightarrow> (Inl e, t)
      | Inr rowData \<Rightarrow> (Inr (), t\<lparr>rows := rows t @ [Row rowData]\<rparr>))"

text \<open>
  \<open>Table::count\<close>: the counter is a C++ \<open>int\<close>; it is modelled unbounded, a table of
  more than \<open>INT_MAX\<close> rows being out of reach.
\<close>

fun count_loop :: "Row list \<Rightarrow> string \<Rightarrow> int \<Rightarrow> int" where
  "count_loop [] column c = c"
| "count_loop (row # rs) column c =
     (case getData row column of
        Some v \<Rightarrow> if v \<noteq> [] then count_loop rs column (c + 1) else count_loop rs column c
      | None \<Rightarrow> count_loop rs column c)"

definition Table_count :: "Table \<Rightarrow> string \<Rightarrow> int" where
  "Table_count t column = count_loop (rows t) column 0"

text \<open>
  \<open>Table::sum\<close> and \<open>Table::avg\<close> compute in \<open>double\<close>. The arithmetic of \<open>double\<close>
  and \<open>std::stod\<close> are not part of the repository; they are parameters of the model:
  addition, division, the conversion of an \<open>int\<close> (which also gives the literals \<open>0\<close>
  and \<open>0.0\<close>), and \<open>std::stod\<close>, whose exceptions are the result \<open>None\<close>. What is
  written to \<open>std::cerr\<close> is returned beside the value.
\<close>

record 'd double_ops =
  dadd :: "'d \<Rightarrow> 'd \<Rightarrow> 'd"
  ddiv :: "'d \<Rightarrow> 'd \<Rightarrow> 'd"
  of_int_d :: "int \<Rightarrow> 'd"
  stod :: "string \<Rightarrow> 'd option"

fun sum_isNumeric :: "Column list \<Rightarrow> string \<Rightarrow> bool" where
  "sum_isNumeric [] column = False"
| "sum_isNumeric (col # cols) column =
     (if getName col = column
      then (if getType col = IntegerType then True else False)
      else sum_isNumeric cols column)"

fun sum_loop :: "'d double_ops \<Rightarrow> Row list \<Rightarrow> string \<Rightarrow> 'd \<Rightarrow> 'd" where
  "sum_loop ops [] column s = s"
| "sum_loop ops (row # rs) column s =
     (case getData row column of
        Some v \<Rightarrow>
          if v \<noteq> [] then
            (case stod ops v of
               Some x \<Rightarrow> sum_loop ops rs column (dadd ops s x)
             | None \<Rightarrow> sum_loop ops rs column s)
          else sum_loop ops rs column s
      | None \<Rightarrow> sum_loop ops rs column s)"

definition sum_warning :: "string \<Rightarrow> string" where
  "sum_warning column =
     ''Warning: Attempted to SUM non-numeric column '' @ [CHR 0x27] @ column @ [CHR 0x27]
     @ [CHR 0x0A]"

definition Table_sum :: "'d double_ops \<Rightarrow> Table \<Rightarrow> string \<Rightarrow> 'd \<times> string" where
  "Table_sum ops t column =
     (if \<not> sum_isNumeric (columns t) column then (of_int_d ops 0, sum_warning column)
      else (sum_loop ops (rows t) column (of_int_d ops 0), []))"

definition Table_avg :: "'d double_ops \<Rightarrow> Table \<Rightarrow> string \<Rightarrow> 'd \<times> string" where
  "Table_avg ops t column =
     (let num = Table_count t column
      in if num = 0 then (of_int_d ops 0, [])
         else (case Table_sum ops t column of
                 (s, err) \<Rightarrow> (ddiv ops s (of_int_d ops num), err)))"

subsection \<open>Database\<close>

text \<open>
  The registry maps a table name to its table. A \<open>shared_ptr<Table>\<close> handed out by
  \<open>createTable\<close> or \<open>getTable\<close> aliases the registry's entry, and no entry is ever
  removed or replaced, so a handle is the table's name and an insertion through a
  handle updates the entry.
\<close>

type_synonym Database = "string \<rightharpoonup> Table"

definition createTable :: "Database \<Rightarrow> string \<Rightarrow> Column list \<Rightarrow> (exception + unit) \<times> Database" where
  "createTable tables n cols =
     (if n \<in> dom tables then (Inl (DuplicateTableName n), tables)
      else (Inr (), tables(n \<mapsto> Table_ctor n cols)))"

definition getTable :: "Database \<Rightarrow> string \<Rightarrow> exception + Table" where
  "getTable tables n =
     (case tables n of Some t \<Rightarrow> Inr t | None \<Rightarrow> Inl (TableNotFound n))"

text \<open>
  A client program is a sequence of \<open>createTable\<close> calls and of insertions into a
  registered table, each exception being caught by the client as \<open>main\<close> does. The
  registry starts empty.
\<close>

datatype operation = CreateTable string "Column list" | Insert string "string \<rightharpoonup> string"

fun exec :: "Database \<Rightarrow> operation \<Rightarrow> Database" where
  "exec tables (CreateTable n cols) = snd (createTable tables n cols)"
| "exec tables (Insert n values) =
     (case getTable tables n of
        Inl e \<Rightarrow> tables
      | Inr t \<Rightarrow> tables(n \<mapsto> snd (Table_insert t values)))"

definition run :: "operation list \<Rightarrow> Database" where
  "run ops = foldl exec Map.empty ops"

section \<open>Notions used to state the properties\<close>

subsection \<open>Decimal integers\<close>

text \<open>
  The positional value of a string of decimal digits, least significant digit first,
  and from it the value of a whole string that is one optional sign followed by
  digits. \<open>signed_decimal\<close> says that a string is such a text: an optional \<open>+\<close> or
  \<open>-\<close>, then one digit or more, and nothing else.
\<close>

fun decimal_of_rev :: "string \<Rightarrow> int" where
  "decimal_of_rev [] = 0"
| "decimal_of_rev (c # cs) = digit_value c + 10 * decimal_of_rev cs"

definition decimal_value :: "string \<Rightarrow> int" where
  "decimal_value ds = decimal_of_rev (rev ds)"

fun signed_decimal :: "string \<Rightarrow> bool" where
  "signed_decimal [] = False"
| "signed_decimal (c # cs) =
     (if c = CHR ''-'' \<or> c = CHR ''+'' then cs \<noteq> [] \<and> list_all isdigit cs
      else list_all isdigit (c # cs))"

fun signed_decimal_value :: "string \<Rightarrow> int" where
  "signed_decimal_value [] = 0"
| "signed_decimal_value (c # cs) =
     (if c = CHR ''-'' then - decimal_value cs
      else if c = CHR ''+'' then decimal_value cs
      else decimal_value (c # cs))"

subsection \<open>Rows and schemas\<close>

text \<open>
  A row has a value for a column name when the name is a key of the row and the text
  stored under it is not empty. The rows of a table match its schema when the keys of
  every row are the names of the columns.
\<close>

definition present_nonempty :: "string \<Rightarrow> Row \<Rightarrow> bool" where
  "present_nonempty column row =
     (case getData row column of None \<Rightarrow> False | Some v \<Rightarrow> v \<noteq> [])"

definition column_names :: "Table \<Rightarrow> string set" where
  "column_names t = set (map getName (columns t))"

definition rows_match_schema :: "Table \<Rightarrow> bool" where
  "rows_match_schema t = list_all (\<lambda>row. dom (getData row) = column_names t) (rows t)"

text \<open>
  The numbers \<open>sum\<close> adds up: for each row in order, the number \<open>std::stod\<close> reads
  from the text stored under the column name, when there is such a text, it is not
  empty and \<open>std::stod\<close> does not throw.
\<close>

definition numeric_values :: "'d double_ops \<Rightarrow> string \<Rightarrow> Row list \<Rightarrow> 'd list" where
  "numeric_values ops column rs =
     List.map_filter
       (\<lambda>row. case getData row column of
                 None \<Rightarrow> None
               | Some v \<Rightarrow> if v = [] then None else stod ops v)
       rs"

text \<open>
  A row has its primary keys when it stores a non-empty text for every primary-key
  column; a schema declares its primary keys NOT NULL when no primary-key column is
  nullable.
\<close>

definition primary_key_present :: "Row \<Rightarrow> Column \<Rightarrow> bool" where
  "primary_key_present row col =
     (if isPrimaryKey col
      then (case getData row (getName col) of None \<Rightarrow> False | Some v \<Rightarrow> v \<noteq> [])
      else True)"

definition primary_keys_present :: "Table \<Rightarrow> bool" where
  "primary_keys_present t =
     list_all (\<lambda>row. list_all (primary_key_present row) (columns t)) (rows t)"

definition primary_keys_not_null :: "Column list \<Rightarrow> bool" where
  "primary_keys_not_null cols =
     list_all (\<lambda>col. if isPrimaryKey col then \<not> isNullable col else True) cols"

definition primary_keys_kept :: "Table \<Rightarrow> bool" where
  "primary_keys_kept t = (primary_keys_not_null (columns t) \<and> primary_keys_present t)"

fun declares_primary_keys_not_null :: "operation \<Rightarrow> bool" where
  "declares_primary_keys_not_null (CreateTable n cols) = primary_keys_not_null cols"
| "declares_primary_keys_not_null (Insert n vs) = True"

subsection \<open>The demonstration of \<open>main\<close>\<close>

text \<open>
  The table \<open>users\<close> of \<open>main\<close> and the insertions \<open>main\<close> attempts on it: three that
  succeed and three that throw.
\<close>

definition users_columns :: "Column list" where
  "users_columns =
     [Column ''id'' IntegerType False True None,
      Column ''name'' StringType False False None,
      Column ''age'' IntegerType True False None]"

definition main_operations :: "operation list" where
  "main_operations =
     [CreateTable ''users'' users_columns,
      Insert ''users'' [''id'' \<mapsto> ''1'', ''name'' \<mapsto> ''Alex'', ''age'' \<mapsto> ''25''],
      Insert ''users'' [''id'' \<mapsto> ''2'', ''name'' \<mapsto> ''Mira'', ''age'' \<mapsto> ''30''],
      Insert ''users'' [''id'' \<mapsto> ''3'', ''name'' \<mapsto> ''Sam''],
      Insert ''users'' [''id'' \<mapsto> ''4''],
      Insert ''users'' [''id'' \<mapsto> ''four'', ''name'' \<mapsto> ''Test''],
      Insert ''users'' [''name'' \<mapsto> ''Test'']]"

text \<open>
  To evaluate \<open>sum\<close> and \<open>avg\<close> on the demonstration, the arithmetic parameters are
  instantiated with the real numbers, on which \<open>double\<close> is exact for the small
  integers involved, and with a reader that agrees with \<open>std::stod\<close> on the texts
  \<open>std::stoi\<close> accepts. The general theorems do not depend on this instance.
\<close>

definition stod_integral :: "string \<Rightarrow> real option" where
  "stod_integral s = (case stoi s of Inr (v, pos) \<Rightarrow> Some (real_of_int v) | Inl e \<Rightarrow> None)"

definition real_ops :: "real double_ops" where
  "real_ops = \<lparr>dadd = (+), ddiv = (/), of_int_d = real_of_int, stod = stod_integral\<rparr>"

section \<open>Evaluation\<close>

lemmas eval_defs = run_def main_operations_def users_columns_def createTable_def getTable_def
  Table_insert_def Table_ctor_def Column_validate_def IntegerType_validate_def
  StringType_validate_def stoi_def read_sign_def isspace_def isdigit_def digit_value_def
  INT_MIN_def INT_MAX_def MissingPrimaryKeyValue_def MissingRequiredValue_def
  InvalidColumnValue_def

section \<open>The Integer validator\<close>

lemma digits_value_snoc:
  "digits_value acc (ds @ [c]) = 10 * digits_value acc ds + digit_value c"
  by (induction ds arbitrary: acc) simp_all

lemma digits_value_decimal: "digits_value 0 ds = decimal_value ds"
  by (induction ds rule: rev_induct) (simp_all add: decimal_value_def digits_value_snoc)

lemma takeWhile_length_all: "length (takeWhile P xs) = length xs \<longleftrightarrow> list_all P xs"
proof
  assume "length (takeWhile P xs) = length xs"
  then have "takeWhile P xs = xs"
    by (metis append_eq_conv_conj takeWhile_dropWhile_id take_all order_refl)
  then show "list_all P xs"
    by (simp add: takeWhile_eq_all_conv list_all_iff)
next
  assume "list_all P xs"
  then have "takeWhile P xs = xs"
    by (simp add: list_all_iff)
  then show "length (takeWhile P xs) = length xs"
    by (simp only:)
qed

lemma consumed_all:
  assumes "length r \<le> length s"
  shows "(length s - length r) + length (takeWhile P r) = length s \<longleftrightarrow> list_all P r"
  using assms takeWhile_length_all[of P r] by auto

text \<open>
  After white space and sign, \<open>stoi\<close> returns with \<open>pos\<close> at the end of the string
  exactly when what is left is a non-empty run of digits whose signed value is an
  \<open>int\<close>.
\<close>

lemma digits_consumed:
  assumes "length r \<le> length s"
  shows "(\<exists>v. (if takeWhile isdigit r = [] then Inl invalid_argument
              else if f (decimal_value (takeWhile isdigit r)) < INT_MIN
                      \<or> INT_MAX < f (decimal_value (takeWhile isdigit r))
                   then Inl out_of_range
                   else Inr (f (decimal_value (takeWhile isdigit r)),
                             (length s - length r) + length (takeWhile isdigit r)))
             = Inr (v :: int, length s))
         \<longleftrightarrow> r \<noteq> [] \<and> list_all isdigit r
             \<and> INT_MIN \<le> f (decimal_value r) \<and> f (decimal_value r) \<le> INT_MAX"
proof (cases "list_all isdigit r")
  case True
  then have tw: "takeWhile isdigit r = r"
    by (simp add: list_all_iff)
  show ?thesis
    unfolding tw using True assms by auto
next
  case False
  then have "(length s - length r) + length (takeWhile isdigit r) \<noteq> length s"
    using consumed_all[OF assms, of isdigit] by simp
  then show ?thesis
    using False by (auto split: if_splits)
qed

lemma stoi_consumes_all:
  "(\<exists>v. stoi s = Inr (v, length s)) \<longleftrightarrow>
     signed_decimal (dropWhile isspace s)
     \<and> INT_MIN \<le> signed_decimal_value (dropWhile isspace s)
     \<and> signed_decimal_value (dropWhile isspace s) \<le> INT_MAX"
proof -
  define d where "d = dropWhile isspace s"
  have len: "length d \<le> length s"
    unfolding d_def by (rule length_dropWhile_le)
  have stoi_d: "stoi s =
     (case read_sign d of (negative, r) \<Rightarrow>
        if takeWhile isdigit r = [] then Inl invalid_argument
        else if (if negative then uminus else id) (decimal_value (takeWhile isdigit r)) < INT_MIN
              \<or> INT_MAX < (if negative then uminus else id) (decimal_value (takeWhile isdigit r))
        then Inl out_of_range
        else Inr ((if negative then uminus else id) (decimal_value (takeWhile isdigit r)),
                  (length s - length r) + length (takeWhile isdigit r)))"
    unfolding stoi_def d_def Let_def digits_value_decimal by (simp split: prod.splits)
  have "(\<exists>v. stoi s = Inr (v, length s)) \<longleftrightarrow>
     signed_decimal d \<and> INT_MIN \<le> signed_decimal_value d \<and> signed_decimal_value d \<le> INT_MAX"
  proof (cases d)
    case Nil
    then show ?thesis by (simp add: stoi_d read_sign_def)
  next
    case (Cons c cs)
    have le: "length cs \<le> length s" "length (c # cs) \<le> length s"
      using len Cons by simp_all
    consider (minus) "c = CHR ''-''" | (plus) "c = CHR ''+''"
      | (other) "c \<noteq> CHR ''-''" "c \<noteq> CHR ''+''"
      by blast
    then show ?thesis
    proof cases
      case minus
      then have rs: "read_sign d = (True, cs)"
        by (simp add: read_sign_def Cons)
      have "(\<exists>v. stoi s = Inr (v, length s)) \<longleftrightarrow> cs \<noteq> [] \<and> list_all isdigit cs
              \<and> INT_MIN \<le> - decimal_value cs \<and> - decimal_value cs \<le> INT_MAX"
        unfolding stoi_d rs
        by (simp only: prod.case if_True) (rule digits_consumed[OF le(1), of uminus])
      then show ?thesis
        by (simp add: Cons minus)
    next
      case plus
      then have rs: "read_sign d = (False, cs)"
        by (simp add: read_sign_def Cons)
      have "(\<exists>v. stoi s = Inr (v, length s)) \<longleftrightarrow> cs \<noteq> [] \<and> list_all isdigit cs
              \<and> INT_MIN \<le> id (decimal_value cs) \<and> id (decimal_value cs) \<le> INT_MAX"
        unfolding stoi_d rs
        by (simp only: prod.case if_False) (rule digits_consumed[OF le(1), of id])
      then show ?thesis
        by (simp add: Cons plus)
    next
      case other
      then have rs: "read_sign d = (False, c # cs)"
        by (simp add: read_sign_def Cons)
      have "(\<exists>v. stoi s = Inr (v, length s)) \<longleftrightarrow> c # cs \<noteq> [] \<and> list_all isdigit (c # cs)
              \<and> INT_MIN \<le> id (decimal_value (c # cs)) \<and> id (decimal_value (c # cs)) \<le> INT_MAX"
        unfolding stoi_d rs
        by (simp only: prod.case if_False) (rule digits_consumed[OF le(2), of id])
      then show ?thesis
        by (simp add: Cons other)
    qed
  qed
  then show ?thesis by (simp add: d_def)
qed

text \<open>
  What \<open>IntegerType::validate\<close> accepts, for every text: after the white space that
  \<open>std::stoi\<close> skips, one optional sign and one digit or more up to the end of the
  string, with a value in the range of \<open>int\<close>.
\<close>

lemma IntegerType_validate_iff:
  "IntegerType_validate s \<longleftrightarrow>
     signed_decimal (dropWhile isspace s)
     \<and> INT_MIN \<le> signed_decimal_value (dropWhile isspace s)
     \<and> signed_decimal_value (dropWhile isspace s) \<le> INT_MAX"
proof (cases "s = []")
  case True
  then show ?thesis by (simp add: IntegerType_validate_def)
next
  case False
  have "IntegerType_validate s \<longleftrightarrow> (\<exists>v. stoi s = Inr (v, length s))"
    using False by (auto simp add: IntegerType_validate_def split: sum.splits)
  then show ?thesis by (simp only: stoi_consumes_all)
qed

lemma signed_decimal_no_space: "signed_decimal s \<Longrightarrow> dropWhile isspace s = s"
  by (cases s) (auto simp add: isspace_def isdigit_def split: if_splits)

lemma stoi_all_digits:
  assumes "dropWhile isspace s = s" and "read_sign s = (negative, r)"
    and "list_all isdigit r" and "r \<noteq> []"
  shows "stoi s =
     (if (if negative then - decimal_value r else decimal_value r) < INT_MIN
         \<or> INT_MAX < (if negative then - decimal_value r else decimal_value r)
      then Inl out_of_range
      else Inr (if negative then - decimal_value r else decimal_value r,
                (length s - length r) + length r))"
proof -
  have tw: "takeWhile isdigit r = r"
    using assms(3) by (simp add: list_all_iff)
  show ?thesis
    unfolding stoi_def assms(1) Let_def assms(2) prod.case tw digits_value_decimal
    using assms(4) by simp
qed

lemma stoi_out_of_range:
  assumes "signed_decimal s"
    and "signed_decimal_value s < INT_MIN \<or> INT_MAX < signed_decimal_value s"
  shows "stoi s = Inl out_of_range"
proof -
  have ns: "dropWhile isspace s = s"
    using assms(1) by (rule signed_decimal_no_space)
  obtain c cs where s: "s = c # cs"
    using assms(1) by (cases s) simp_all
  consider (minus) "c = CHR ''-''" | (plus) "c = CHR ''+''"
    | (other) "c \<noteq> CHR ''-''" "c \<noteq> CHR ''+''"
    by blast
  then show ?thesis
  proof cases
    case minus
    have "read_sign s = (True, cs)" "list_all isdigit cs" "cs \<noteq> []"
      using assms(1) by (simp_all add: s minus read_sign_def)
    from stoi_all_digits[OF ns this] assms(2) show ?thesis
      by (simp add: s minus)
  next
    case plus
    have "read_sign s = (False, cs)" "list_all isdigit cs" "cs \<noteq> []"
      using assms(1) by (simp_all add: s plus read_sign_def)
    from stoi_all_digits[OF ns this] assms(2) show ?thesis
      by (simp add: s plus)
  next
    case other
    have "read_sign s = (False, s)" "list_all isdigit s" "s \<noteq> []"
      using assms(1) by (simp_all add: s other read_sign_def)
    from stoi_all_digits[OF ns this] assms(2) show ?thesis
      by (simp add: s other)
  qed
qed

text \<open>
  Claim C3, as amended. For every text that does not begin with white space,
  \<open>IntegerType::validate\<close> returns true exactly when the text is not empty, is one
  optional sign followed by decimal digits up to its end, and its value lies in the
  range of \<open>int\<close>, from \<open>INT_MIN\<close> to \<open>INT_MAX\<close>. Texts that begin with white space
  are left out of the statement.
\<close>

theorem IntegerType_validate_in_int_range:
  "dropWhile isspace s = s \<Longrightarrow>
   IntegerType_validate s \<longleftrightarrow>
     s \<noteq> [] \<and> signed_decimal s
     \<and> INT_MIN \<le> signed_decimal_value s \<and> signed_decimal_value s \<le> INT_MAX"
  using IntegerType_validate_iff[of s] by (cases s) simp_all

text \<open>
  The theorem at the four texts of the specification: \<open>123\<close> and \<open>-5\<close> are valid, the
  empty text and \<open>12x\<close> are not.
\<close>

theorem IntegerType_validate_in_int_range_witness:
  "dropWhile isspace ''123'' = ''123'' \<and> IntegerType_validate ''123''
   \<and> dropWhile isspace ''-5'' = ''-5'' \<and> IntegerType_validate ''-5''
   \<and> dropWhile isspace [] = [] \<and> \<not> IntegerType_validate []
   \<and> dropWhile isspace ''12x'' = ''12x'' \<and> \<not> IntegerType_validate ''12x''"
  using IntegerType_validate_in_int_range[of "''123''"]
    IntegerType_validate_in_int_range[of "''-5''"]
    IntegerType_validate_in_int_range[of "[]"]
    IntegerType_validate_in_int_range[of "''12x''"]
  by (simp add: isspace_def isdigit_def decimal_value_def digit_value_def INT_MAX_def
      INT_MIN_def)

text \<open>
  Claim C3 as stated fails: \<open>9999999999\<close> is not empty and is a whole-string decimal
  integer, yet it is rejected; and the text made of a space followed by \<open>12\<close> is
  accepted although it is not a sign followed by digits.
\<close>

theorem IntegerType_validate_counterexample:
  "\<not> (IntegerType_validate ''9999999999''
        \<longleftrightarrow> ''9999999999'' \<noteq> [] \<and> signed_decimal ''9999999999'')
   \<and> \<not> (IntegerType_validate '' 12'' \<longleftrightarrow> '' 12'' \<noteq> [] \<and> signed_decimal '' 12'')"
  by (simp add: IntegerType_validate_iff isspace_def isdigit_def decimal_value_def
      digit_value_def INT_MAX_def INT_MIN_def)

text \<open>
  Claim C10. Every text that is one optional sign followed by decimal digits, and whose
  value lies outside the range of \<open>int\<close>, is rejected by \<open>IntegerType::validate\<close>:
  \<open>std::stoi\<close> throws \<open>std::out_of_range\<close> and the handler returns false.
\<close>

theorem IntegerType_validate_out_of_range:
  "signed_decimal s \<Longrightarrow>
   signed_decimal_value s < INT_MIN \<or> INT_MAX < signed_decimal_value s \<Longrightarrow>
   stoi s = Inl out_of_range \<and> \<not> IntegerType_validate s"
  using stoi_out_of_range[of s] by (simp add: IntegerType_validate_def)

text \<open>The text \<open>9999999999\<close> is such a text.\<close>

theorem IntegerType_validate_out_of_range_witness:
  "signed_decimal ''9999999999'' \<and> INT_MAX < signed_decimal_value ''9999999999''
   \<and> stoi ''9999999999'' = Inl out_of_range \<and> \<not> IntegerType_validate ''9999999999''"
  using IntegerType_validate_out_of_range[of "''9999999999''"]
  by (simp add: isdigit_def decimal_value_def digit_value_def INT_MAX_def)

section \<open>The Date validator\<close>

lemma DateType_digits_all:
  "DateType_digits is value \<longleftrightarrow> (\<forall>i\<in>set is. isdigit (value ! i))"
  by (induction "is") simp_all

text \<open>
  Claim C9. \<open>DateType::validate\<close> returns true exactly when the text has length 10,
  the characters at positions 4 and 7 are \<open>-\<close> and the characters at the eight other
  positions are digits. Nothing of the calendar is checked.
\<close>

theorem DateType_validate_format:
  "DateType_validate value \<longleftrightarrow>
     length value = 10 \<and> value ! 4 = CHR ''-'' \<and> value ! 7 = CHR ''-''
     \<and> (\<forall>i\<in>{0, 1, 2, 3, 5, 6, 8, 9}. isdigit (value ! i))"
  by (auto simp add: DateType_validate_def DateType_digits_all)

text \<open>
  The theorem at the texts of the specification: \<open>2024-01-15\<close> and \<open>2024-13-99\<close> are
  valid, \<open>2024/01/15\<close> and \<open>24-01-15\<close> are not.
\<close>

theorem DateType_validate_format_witness:
  "DateType_validate ''2024-01-15'' \<and> DateType_validate ''2024-13-99''
   \<and> \<not> DateType_validate ''2024/01/15'' \<and> \<not> DateType_validate ''24-01-15''"
  using DateType_validate_format[of "''2024-01-15''"]
    DateType_validate_format[of "''2024-13-99''"]
    DateType_validate_format[of "''2024/01/15''"]
    DateType_validate_format[of "''24-01-15''"]
  by (simp add: isdigit_def)

section \<open>Insertion\<close>

subsection \<open>The loop over the columns\<close>

lemma insert_errors_distinct:
  "MissingPrimaryKeyValue a \<noteq> MissingRequiredValue b"
  "MissingPrimaryKeyValue a \<noteq> InvalidColumnValue v b"
  "MissingRequiredValue a \<noteq> InvalidColumnValue v b"
  by (simp_all add: MissingPrimaryKeyValue_def MissingRequiredValue_def InvalidColumnValue_def)

lemma insert_loop_restrict:
  "set (map getName cols) \<subseteq> S \<Longrightarrow>
   insert_loop cols (restrict_map values S) rowData = insert_loop cols values rowData"
  by (induction cols arbitrary: rowData) (simp_all split: option.splits)

lemma insert_loop_append:
  "insert_loop (pre @ post) values rowData =
     (case insert_loop pre values rowData of
        Inl e \<Rightarrow> Inl e
      | Inr rowData' \<Rightarrow> insert_loop post values rowData')"
  by (induction pre arbitrary: rowData) (simp_all split: option.splits)

lemma insert_loop_dom:
  "insert_loop cols values rowData = Inr rowData' \<Longrightarrow>
   dom rowData' = dom rowData \<union> set (map getName cols)"
proof (induction cols arbitrary: rowData)
  case Nil
  then show ?case by simp
next
  case (Cons col cols)
  then show ?case
    by (cases "values (getName col)") (auto split: if_splits)
qed

text \<open>A column without a value that is a primary key or NOT NULL makes the loop throw.\<close>

lemma insert_loop_missing_fails:
  assumes "col \<in> set cols" and "values (getName col) = None"
    and "isPrimaryKey col \<or> \<not> isNullable col"
  shows "\<exists>e. insert_loop cols values rowData = Inl e"
  using assms
proof (induction cols arbitrary: rowData)
  case Nil
  then show ?case by simp
next
  case (Cons c cols)
  show ?case
  proof (cases "c = col")
    case True
    with Cons.prems show ?thesis by auto
  next
    case False
    with Cons.prems have "col \<in> set cols" by simp
    from Cons.IH[OF this Cons.prems(2,3)] show ?thesis
      by (auto split: option.splits)
  qed
qed

text \<open>
  A key already in the row keeps its text through the rest of the loop when every later
  column of that name would store the same text.
\<close>

lemma insert_loop_untouched:
  assumes "insert_loop cols values rowData = Inr rowData'" and "rowData n = Some x"
    and "\<forall>c\<in>set cols. getName c = n \<longrightarrow> (case values n of None \<Rightarrow> [] | Some v \<Rightarrow> v) = x"
  shows "rowData' n = Some x"
  using assms
proof (induction cols arbitrary: rowData)
  case Nil
  then show ?case by simp
next
  case (Cons a cols)
  then show ?case
    by (cases "values (getName a)") (auto split: if_splits)
qed

text \<open>
  After a loop that completes, the row stores under each column name the text supplied
  for it, or the empty text when none was supplied.
\<close>

lemma insert_loop_stored:
  assumes "insert_loop cols values rowData = Inr rowData'" and "col \<in> set cols"
  shows "rowData' (getName col) = Some (case values (getName col) of None \<Rightarrow> [] | Some v \<Rightarrow> v)"
  using assms
proof (induction cols arbitrary: rowData)
  case Nil
  then show ?case by simp
next
  case (Cons c cols)
  show ?case
  proof (cases "col \<in> set cols")
    case True
    with Cons show ?thesis
      by (cases "values (getName c)") (auto split: if_splits)
  next
    case False
    with Cons.prems have c: "c = col" by simp
    show ?thesis
      using Cons.prems(1) unfolding c
      by (cases "values (getName col)") (auto split: if_splits intro: insert_loop_untouched)
  qed
qed

lemma insert_loop_validated:
  assumes "insert_loop cols values rowData = Inr rowData'" and "col \<in> set cols"
    and "values (getName col) = Some v"
  shows "Column_validate col v"
  using assms
proof (induction cols arbitrary: rowData)
  case Nil
  then show ?case by simp
next
  case (Cons c cols)
  show ?case
  proof (cases "c = col")
    case True
    with Cons.prems show ?thesis by (auto split: if_splits)
  next
    case False
    with Cons.prems have "col \<in> set cols" by simp
    with Cons show ?thesis
      by (cases "values (getName c)") (auto split: if_splits)
  qed
qed

subsection \<open>All or nothing\<close>

text \<open>
  Claim C1. \<open>Table::insert\<close> is all-or-nothing. If it throws, whichever column it
  throws for, the table is exactly as before the call; if it returns, the table is
  the table of before with exactly one row appended, its earlier rows, its columns and
  its name unchanged. One of the two always happens.
\<close>

theorem Table_insert_all_or_nothing:
  "(\<forall>e t'. Table_insert t values = (Inl e, t') \<longrightarrow> t' = t)
   \<and> (\<forall>t'. Table_insert t values = (Inr (), t') \<longrightarrow>
          (\<exists>row. t' = t\<lparr>rows := rows t @ [row]\<rparr>))
   \<and> ((\<exists>e. Table_insert t values = (Inl e, t))
        \<or> (\<exists>row. Table_insert t values = (Inr (), t\<lparr>rows := rows t @ [row]\<rparr>)))"
  by (auto simp add: Table_insert_def split: sum.splits)

text \<open>
  On the \<open>users\<close> table: the insertion of \<open>id = 4\<close> alone throws and leaves the table
  as it was; the insertion of a full record appends that record.
\<close>

theorem Table_insert_all_or_nothing_witness:
  "Table_insert (Table_ctor ''users'' users_columns) [''id'' \<mapsto> ''4'']
     = (Inl (MissingRequiredValue ''name''), Table_ctor ''users'' users_columns)
   \<and> rows (snd (Table_insert (Table_ctor ''users'' users_columns)
                  [''id'' \<mapsto> ''1'', ''name'' \<mapsto> ''Alex'', ''age'' \<mapsto> ''25'']))
     = rows (Table_ctor ''users'' users_columns)
       @ [Row [''id'' \<mapsto> ''1'', ''name'' \<mapsto> ''Alex'', ''age'' \<mapsto> ''25'']]"
  using Table_insert_all_or_nothing[of "Table_ctor ''users'' users_columns" "[''id'' \<mapsto> ''4'']"]
    Table_insert_all_or_nothing[of "Table_ctor ''users'' users_columns"
          "[''id'' \<mapsto> ''1'', ''name'' \<mapsto> ''Alex'', ''age'' \<mapsto> ''25'']"]
  by (simp add: eval_defs)

subsection \<open>Keys that are not column names\<close>

text \<open>
  Claim C8. Entries of the value map whose key is not a column name are ignored: the
  insertion has the same outcome, the same exception or the same appended row, as the
  insertion of the map restricted to the column names.
\<close>

theorem Table_insert_ignores_unknown_keys:
  "Table_insert t (restrict_map values (column_names t)) = Table_insert t values"
  by (simp add: Table_insert_def column_names_def insert_loop_restrict)

text \<open>On the \<open>users\<close> table, an extra key \<open>nickname\<close> changes nothing and the insertion succeeds.\<close>

theorem Table_insert_ignores_unknown_keys_witness:
  "Table_insert (Table_ctor ''users'' users_columns)
     (restrict_map [''id'' \<mapsto> ''1'', ''name'' \<mapsto> ''Alex'', ''nickname'' \<mapsto> ''Al'']
        (column_names (Table_ctor ''users'' users_columns)))
   = Table_insert (Table_ctor ''users'' users_columns)
       [''id'' \<mapsto> ''1'', ''name'' \<mapsto> ''Alex'', ''nickname'' \<mapsto> ''Al'']
   \<and> fst (Table_insert (Table_ctor ''users'' users_columns)
       [''id'' \<mapsto> ''1'', ''name'' \<mapsto> ''Alex'', ''nickname'' \<mapsto> ''Al'']) = Inr ()"
  using Table_insert_ignores_unknown_keys[of "Table_ctor ''users'' users_columns"
              "[''id'' \<mapsto> ''1'', ''name'' \<mapsto> ''Alex'', ''nickname'' \<mapsto> ''Al'']"]
  by (simp add: eval_defs)

subsection \<open>Columns without a value\<close>

text \<open>
  Claim C2, as amended. Take a column of the schema for which the value map has no
  entry. If the column is a primary key or is not nullable, the insertion throws and
  the table is unchanged. When the loop over the columns before it, in schema order,
  completes without a throw, then: if the column is a primary key the exception is the
  missing-primary-key error naming it; otherwise, if it is not nullable, the exception
  is the missing-required-value error naming it; otherwise, the column being nullable,
  it is accepted, the loop goes on to the later columns with the empty text stored for
  it, the outcome of the insertion is the outcome of the loop over the later columns,
  and when that loop completes the insertion succeeds and the appended row stores the
  empty text for the column. Whenever the insertion succeeds, the column is nullable
  and not a primary key, and the appended row stores the empty text for it.
\<close>

theorem Table_insert_missing_value:
  assumes "columns t = pre @ col # post" and "values (getName col) = None"
  shows "(isPrimaryKey col \<or> \<not> isNullable col \<longrightarrow> (\<exists>e. Table_insert t values = (Inl e, t)))
       \<and> ((\<exists>rowData. insert_loop pre values Map.empty = Inr rowData) \<and> isPrimaryKey col \<longrightarrow>
            Table_insert t values = (Inl (MissingPrimaryKeyValue (getName col)), t))
       \<and> ((\<exists>rowData. insert_loop pre values Map.empty = Inr rowData)
            \<and> \<not> isPrimaryKey col \<and> \<not> isNullable col \<longrightarrow>
            Table_insert t values = (Inl (MissingRequiredValue (getName col)), t))
       \<and> (\<forall>rowData. insert_loop pre values Map.empty = Inr rowData
              \<and> \<not> isPrimaryKey col \<and> isNullable col \<longrightarrow>
            insert_loop (pre @ [col]) values Map.empty = Inr (rowData(getName col \<mapsto> []))
            \<and> Table_insert t values =
                (case insert_loop post values (rowData(getName col \<mapsto> [])) of
                   Inl e \<Rightarrow> (Inl e, t)
                 | Inr rowData' \<Rightarrow> (Inr (), t\<lparr>rows := rows t @ [Row rowData']\<rparr>))
            \<and> (\<forall>rowData'. insert_loop post values (rowData(getName col \<mapsto> [])) = Inr rowData' \<longrightarrow>
                  Table_insert t values = (Inr (), t\<lparr>rows := rows t @ [Row rowData']\<rparr>)
                  \<and> rowData' (getName col) = Some []))
       \<and> (\<forall>t'. Table_insert t values = (Inr (), t') \<longrightarrow>
            \<not> isPrimaryKey col \<and> isNullable col
            \<and> (\<exists>row. rows t' = rows t @ [row] \<and> getData row (getName col) = Some []))"
proof -
  have mem: "col \<in> set (columns t)"
    by (simp add: assms(1))
  have fails: "isPrimaryKey col \<or> \<not> isNullable col \<Longrightarrow> \<exists>e. Table_insert t values = (Inl e, t)"
    using insert_loop_missing_fails[of col "columns t" "values" Map.empty] mem assms(2)
    by (auto simp add: Table_insert_def)
  have first: "insert_loop pre values Map.empty = Inr rowData \<Longrightarrow>
      insert_loop (columns t) values Map.empty =
        (if isPrimaryKey col then Inl (MissingPrimaryKeyValue (getName col))
         else if \<not> isNullable col then Inl (MissingRequiredValue (getName col))
         else insert_loop post values (rowData(getName col \<mapsto> [])))" for rowData
    by (simp add: assms insert_loop_append)
  have step: "insert_loop pre values Map.empty = Inr rowData \<Longrightarrow>
      \<not> isPrimaryKey col \<Longrightarrow> isNullable col \<Longrightarrow>
      insert_loop (pre @ [col]) values Map.empty = Inr (rowData(getName col \<mapsto> []))" for rowData
    by (simp add: assms(2) insert_loop_append)
  have stored: "Table_insert t values = (Inr (), t') \<Longrightarrow>
      \<exists>row. rows t' = rows t @ [row] \<and> getData row (getName col) = Some []" for t'
    using insert_loop_stored[of "columns t" "values" Map.empty _ col] mem assms(2)
    by (auto simp add: Table_insert_def split: sum.splits)
  have kept: "insert_loop pre values Map.empty = Inr rowData \<Longrightarrow>
      \<not> isPrimaryKey col \<Longrightarrow> isNullable col \<Longrightarrow>
      insert_loop post values (rowData(getName col \<mapsto> [])) = Inr rowData' \<Longrightarrow>
      rowData' (getName col) = Some []" for rowData rowData'
    using insert_loop_stored[of "columns t" "values" Map.empty rowData' col] mem assms(2) first[of rowData]
    by simp
  have ok: "Table_insert t values = (Inr (), t') \<Longrightarrow> \<not> isPrimaryKey col \<and> isNullable col" for t'
    using fails by auto
  have c1: "isPrimaryKey col \<or> \<not> isNullable col \<longrightarrow> (\<exists>e. Table_insert t values = (Inl e, t))"
    using fails by blast
  have c2: "(\<exists>rowData. insert_loop pre values Map.empty = Inr rowData) \<and> isPrimaryKey col \<longrightarrow>
            Table_insert t values = (Inl (MissingPrimaryKeyValue (getName col)), t)"
    using first by (auto simp add: Table_insert_def)
  have c3: "(\<exists>rowData. insert_loop pre values Map.empty = Inr rowData)
            \<and> \<not> isPrimaryKey col \<and> \<not> isNullable col \<longrightarrow>
            Table_insert t values = (Inl (MissingRequiredValue (getName col)), t)"
    using first by (auto simp add: Table_insert_def)
  have c4: "\<forall>rowData. insert_loop pre values Map.empty = Inr rowData
              \<and> \<not> isPrimaryKey col \<and> isNullable col \<longrightarrow>
            insert_loop (pre @ [col]) values Map.empty = Inr (rowData(getName col \<mapsto> []))
            \<and> Table_insert t values =
                (case insert_loop post values (rowData(getName col \<mapsto> [])) of
                   Inl e \<Rightarrow> (Inl e, t)
                 | Inr rowData' \<Rightarrow> (Inr (), t\<lparr>rows := rows t @ [Row rowData']\<rparr>))
            \<and> (\<forall>rowData'. insert_loop post values (rowData(getName col \<mapsto> [])) = Inr rowData' \<longrightarrow>
                  Table_insert t values = (Inr (), t\<lparr>rows := rows t @ [Row rowData']\<rparr>)
                  \<and> rowData' (getName col) = Some [])"
  proof (intro allI impI, elim conjE)
    fix rowData
    assume pre: "insert_loop pre values Map.empty = Inr rowData"
      and npk: "\<not> isPrimaryKey col" and nul: "isNullable col"
    have loop: "insert_loop (columns t) values Map.empty
                = insert_loop post values (rowData(getName col \<mapsto> []))"
      using first[OF pre] npk nul by simp
    show "insert_loop (pre @ [col]) values Map.empty = Inr (rowData(getName col \<mapsto> []))
            \<and> Table_insert t values =
                (case insert_loop post values (rowData(getName col \<mapsto> [])) of
                   Inl e \<Rightarrow> (Inl e, t)
                 | Inr rowData' \<Rightarrow> (Inr (), t\<lparr>rows := rows t @ [Row rowData']\<rparr>))
            \<and> (\<forall>rowData'. insert_loop post values (rowData(getName col \<mapsto> [])) = Inr rowData' \<longrightarrow>
                  Table_insert t values = (Inr (), t\<lparr>rows := rows t @ [Row rowData']\<rparr>)
                  \<and> rowData' (getName col) = Some [])"
      using step[OF pre npk nul] kept[OF pre npk nul]
      by (simp add: Table_insert_def loop)
  qed
  have c5: "\<forall>t'. Table_insert t values = (Inr (), t') \<longrightarrow>
            \<not> isPrimaryKey col \<and> isNullable col
            \<and> (\<exists>row. rows t' = rows t @ [row] \<and> getData row (getName col) = Some [])"
    using stored ok by blast
  show ?thesis
    using c1 c2 c3 c4 c5 by (intro conjI)
qed

text \<open>
  On the \<open>users\<close> table: without \<open>id\<close>, the first column, the insertion throws the
  missing-primary-key error for \<open>id\<close>; with \<open>id\<close> and without \<open>name\<close> it throws the
  missing-required-value error for \<open>name\<close>; with \<open>id\<close> and \<open>name\<close> and without the
  nullable \<open>age\<close> the loop accepts \<open>age\<close> with the empty text, the insertion succeeds
  and the appended row stores the empty text for \<open>age\<close>.
\<close>

theorem Table_insert_missing_value_witness:
  "columns (Table_ctor ''users'' users_columns)
     = [] @ Column ''id'' IntegerType False True None
          # [Column ''name'' StringType False False None, Column ''age'' IntegerType True False None]
   \<and> [''name'' \<mapsto> ''Test''] (getName (Column ''id'' IntegerType False True None)) = None
   \<and> insert_loop [] [''name'' \<mapsto> ''Test''] Map.empty = Inr Map.empty
   \<and> isPrimaryKey (Column ''id'' IntegerType False True None)
   \<and> Table_insert (Table_ctor ''users'' users_columns) [''name'' \<mapsto> ''Test'']
       = (Inl (MissingPrimaryKeyValue ''id''), Table_ctor ''users'' users_columns)
   \<and> columns (Table_ctor ''users'' users_columns)
     = [Column ''id'' IntegerType False True None] @ Column ''name'' StringType False False None
          # [Column ''age'' IntegerType True False None]
   \<and> [''id'' \<mapsto> ''4''] (getName (Column ''name'' StringType False False None)) = None
   \<and> insert_loop [Column ''id'' IntegerType False True None] [''id'' \<mapsto> ''4''] Map.empty
       = Inr [''id'' \<mapsto> ''4'']
   \<and> Table_insert (Table_ctor ''users'' users_columns) [''id'' \<mapsto> ''4'']
       = (Inl (MissingRequiredValue ''name''), Table_ctor ''users'' users_columns)
   \<and> columns (Table_ctor ''users'' users_columns)
     = [Column ''id'' IntegerType False True None, Column ''name'' StringType False False None]
       @ Column ''age'' IntegerType True False None # []
   \<and> [''id'' \<mapsto> ''3'', ''name'' \<mapsto> ''Sam''] (getName (Column ''age'' IntegerType True False None)) = None
   \<and> insert_loop [Column ''id'' IntegerType False True None, Column ''name'' StringType False False None]
         [''id'' \<mapsto> ''3'', ''name'' \<mapsto> ''Sam''] Map.empty
       = Inr [''id'' \<mapsto> ''3'', ''name'' \<mapsto> ''Sam'']
   \<and> \<not> isPrimaryKey (Column ''age'' IntegerType True False None)
   \<and> isNullable (Column ''age'' IntegerType True False None)
   \<and> insert_loop users_columns [''id'' \<mapsto> ''3'', ''name'' \<mapsto> ''Sam''] Map.empty
       = Inr [''id'' \<mapsto> ''3'', ''name'' \<mapsto> ''Sam'', ''age'' \<mapsto> []]
   \<and> Table_insert (Table_ctor ''users'' users_columns) [''id'' \<mapsto> ''3'', ''name'' \<mapsto> ''Sam'']
       = (Inr (), (Table_ctor ''users'' users_columns)
                    \<lparr>rows := [Row [''id'' \<mapsto> ''3'', ''name'' \<mapsto> ''Sam'', ''age'' \<mapsto> []]]\<rparr>)
   \<and> getData (last (rows (snd (Table_insert (Table_ctor ''users'' users_columns)
                                   [''id'' \<mapsto> ''3'', ''name'' \<mapsto> ''Sam''])))) ''age'' = Some []"
  using
    Table_insert_missing_value[of "Table_ctor ''users'' users_columns" "[]"
          "Column ''id'' IntegerType False True None"
          "[Column ''name'' StringType False False None, Column ''age'' IntegerType True False None]"
          "[''name'' \<mapsto> ''Test'']"]
    Table_insert_missing_value[of "Table_ctor ''users'' users_columns"
          "[Column ''id'' IntegerType False True None]"
          "Column ''name'' StringType False False None" "[Column ''age'' IntegerType True False None]"
          "[''id'' \<mapsto> ''4'']"]
    Table_insert_missing_value[of "Table_ctor ''users'' users_columns"
          "[Column ''id'' IntegerType False True None, Column ''name'' StringType False False None]"
          "Column ''age'' IntegerType True False None" "[]"
          "[''id'' \<mapsto> ''3'', ''name'' \<mapsto> ''Sam'']"]
  by (simp add: eval_defs)

text \<open>
  Claim C2 as stated fails. In the \<open>users\<close> table the column \<open>name\<close> is NOT NULL and
  not a primary key; the empty value map has no entry for it, yet the insertion does
  not throw the missing-required-value error for \<open>name\<close>: it throws the
  missing-primary-key error for \<open>id\<close>, the column checked before it. And in a table
  whose first column \<open>age\<close> is nullable and whose second column \<open>id\<close> is a primary key,
  the empty value map has no entry for \<open>age\<close>, yet there is no resulting row to store
  an empty text for it: the insertion throws for \<open>id\<close>, the column checked after it,
  and the table keeps no row.
\<close>

theorem Table_insert_missing_value_counterexample:
  "Column ''name'' StringType False False None \<in> set (columns (Table_ctor ''users'' users_columns))
   \<and> Map.empty (getName (Column ''name'' StringType False False None)) = (None :: string option)
   \<and> \<not> isPrimaryKey (Column ''name'' StringType False False None)
   \<and> \<not> isNullable (Column ''name'' StringType False False None)
   \<and> fst (Table_insert (Table_ctor ''users'' users_columns) Map.empty)
       \<noteq> Inl (MissingRequiredValue ''name'')
   \<and> fst (Table_insert (Table_ctor ''users'' users_columns) Map.empty)
       = Inl (MissingPrimaryKeyValue ''id'')
   \<and> Map.empty (getName (Column ''age'' IntegerType True False None)) = (None :: string option)
   \<and> \<not> isPrimaryKey (Column ''age'' IntegerType True False None)
   \<and> isNullable (Column ''age'' IntegerType True False None)
   \<and> Table_insert
         (Table_ctor ''t'' [Column ''age'' IntegerType True False None,
                            Column ''id'' IntegerType False True None])
         Map.empty
       = (Inl (MissingPrimaryKeyValue ''id''),
          Table_ctor ''t'' [Column ''age'' IntegerType True False None,
                            Column ''id'' IntegerType False True None])
   \<and> rows (snd (Table_insert
         (Table_ctor ''t'' [Column ''age'' IntegerType True False None,
                            Column ''id'' IntegerType False True None])
         Map.empty)) = []"
  by (simp add: eval_defs)

section \<open>Tables reached by a client program\<close>

lemma Table_insert_columns: "columns (snd (Table_insert t values)) = columns t"
  by (simp add: Table_insert_def split: sum.splits)

text \<open>Every row that an insertion appends has exactly the column names as its keys.\<close>

lemma Table_insert_rows_match:
  assumes "rows_match_schema t"
  shows "rows_match_schema (snd (Table_insert t values))"
proof (cases "insert_loop (columns t) values Map.empty")
  case (Inl e)
  then show ?thesis using assms by (simp add: Table_insert_def)
next
  case (Inr rowData)
  from insert_loop_dom[OF this] have "dom rowData = column_names t"
    by (simp add: column_names_def)
  then show ?thesis
    using assms Inr by (simp add: Table_insert_def rows_match_schema_def column_names_def)
qed

lemma exec_rows_match:
  assumes "\<And>n t. tables n = Some t \<Longrightarrow> rows_match_schema t"
    and "exec tables opn n = Some t"
  shows "rows_match_schema t"
proof (cases opn)
  case (CreateTable m cols)
  then show ?thesis
    using assms
    by (auto simp add: createTable_def Table_ctor_def rows_match_schema_def split: if_splits)
next
  case (Insert m vs)
  then show ?thesis
    using assms Table_insert_rows_match
    by (auto simp add: getTable_def split: option.splits if_splits)
qed

lemma foldl_exec_rows_match:
  assumes "\<And>n t. tables n = Some t \<Longrightarrow> rows_match_schema t"
    and "foldl exec tables ops n = Some t"
  shows "rows_match_schema t"
  using assms
proof (induction ops arbitrary: tables n t)
  case Nil
  then show ?case by simp
next
  case (Cons opn ops)
  show ?case
  proof (rule Cons.IH[of "exec tables opn"])
    show "rows_match_schema t'" if "exec tables opn m = Some t'" for m t'
      using exec_rows_match[OF Cons.prems(1) that] .
    show "foldl exec (exec tables opn) ops n = Some t"
      using Cons.prems(2) by simp
  qed
qed

lemma run_rows_match: "run ops n = Some t \<Longrightarrow> rows_match_schema t"
  unfolding run_def by (rule foldl_exec_rows_match[of Map.empty]) simp_all

section \<open>Aggregates\<close>

subsection \<open>\<open>count\<close>\<close>

lemma count_loop_filter:
  "count_loop rs column c = c + int (length (filter (present_nonempty column) rs))"
  by (induction rs arbitrary: c) (simp_all add: present_nonempty_def split: option.splits)

text \<open>
  Claim C7. For every table and column name, \<open>count\<close> is the number of rows that store
  a non-empty text under that name. In a table that a client program has reached by
  \<open>createTable\<close> and insertions, a name that is not a column name is a key of no row,
  and \<open>count\<close> returns 0 for it; \<open>count\<close> throws nowhere.
\<close>

theorem Table_count_present_nonempty:
  "Table_count t column = int (length (filter (present_nonempty column) (rows t)))
   \<and> (run ops n = Some t \<and> column \<notin> column_names t \<longrightarrow> Table_count t column = 0)"
proof -
  have count: "Table_count t column = int (length (filter (present_nonempty column) (rows t)))"
    by (simp add: Table_count_def count_loop_filter)
  have "filter (present_nonempty column) (rows t) = []"
    if "run ops n = Some t" and "column \<notin> column_names t"
  proof -
    have "\<forall>row\<in>set (rows t). dom (getData row) = column_names t"
      using run_rows_match[OF that(1)] by (simp add: rows_match_schema_def list_all_iff)
    then have "\<forall>row\<in>set (rows t). getData row column = None"
      using that(2) by blast
    then show ?thesis
      by (simp add: present_nonempty_def filter_empty_conv)
  qed
  then show ?thesis
    using count by simp
qed

text \<open>
  On the table \<open>users\<close> at the end of \<open>main\<close>: \<open>salary\<close> is not a column and its count
  is 0; two of the three rows have an age; all three have a name.
\<close>

theorem Table_count_present_nonempty_witness:
  "run main_operations ''users'' = Some (the (run main_operations ''users''))
   \<and> ''salary'' \<notin> column_names (the (run main_operations ''users''))
   \<and> Table_count (the (run main_operations ''users'')) ''salary'' = 0
   \<and> Table_count (the (run main_operations ''users'')) ''age'' = 2
   \<and> length (filter (present_nonempty ''age'') (rows (the (run main_operations ''users'')))) = 2
   \<and> Table_count (the (run main_operations ''users'')) ''name'' = 3"
  using Table_count_present_nonempty[of "the (run main_operations ''users'')" "''salary''"
      main_operations "''users''"]
    Table_count_present_nonempty[of "the (run main_operations ''users'')" "''age''"
      main_operations "''users''"]
  by (simp add: eval_defs Table_count_def column_names_def present_nonempty_def)

subsection \<open>\<open>sum\<close>\<close>

lemma sum_isNumeric_find:
  "sum_isNumeric cols column =
     (case find (\<lambda>col. getName col = column) cols of
        None \<Rightarrow> False
      | Some col \<Rightarrow> getType col = IntegerType)"
  by (induction cols) simp_all

lemma sum_loop_foldl:
  "sum_loop ops rs column s = foldl (dadd ops) s (numeric_values ops column rs)"
  by (induction rs arbitrary: s)
     (simp_all add: numeric_values_def split: option.splits)

text \<open>
  Claim C5. For every table and column name: when the schema has no column of that
  name, or the type of the column of that name (the first one, where \<open>sum\<close> stops
  looking) is not Integer, \<open>sum\<close> returns 0.0 and writes one warning line to the error
  stream; it throws nothing. Otherwise it writes nothing and returns the numbers read
  from the non-empty texts stored under that name, added up from 0 in row order; a text
  from which no number can be read is skipped. This holds whatever \<open>double\<close> addition
  and \<open>std::stod\<close> compute.
\<close>

theorem Table_sum_behaviour:
  "Table_sum ops t column =
     (case find (\<lambda>col. getName col = column) (columns t) of
        None \<Rightarrow> (of_int_d ops 0, sum_warning column)
      | Some col \<Rightarrow>
          if getType col = IntegerType
          then (foldl (dadd ops) (of_int_d ops 0) (numeric_values ops column (rows t)), [])
          else (of_int_d ops 0, sum_warning column))"
  by (simp add: Table_sum_def sum_isNumeric_find sum_loop_foldl split: option.splits)

text \<open>
  On the table \<open>users\<close> at the end of \<open>main\<close>: the ages 25 and 30 add up to 55; the
  String column \<open>name\<close> and the unknown name \<open>salary\<close> give 0 and the warning.
\<close>

theorem Table_sum_behaviour_witness:
  "Table_sum real_ops (the (run main_operations ''users'')) ''age'' = (55, [])
   \<and> numeric_values real_ops ''age'' (rows (the (run main_operations ''users''))) = [25, 30]
   \<and> Table_sum real_ops (the (run main_operations ''users'')) ''name'' = (0, sum_warning ''name'')
   \<and> Table_sum real_ops (the (run main_operations ''users'')) ''salary''
       = (0, sum_warning ''salary'')"
  using Table_sum_behaviour[of real_ops "the (run main_operations ''users'')" "''age''"]
    Table_sum_behaviour[of real_ops "the (run main_operations ''users'')" "''name''"]
    Table_sum_behaviour[of real_ops "the (run main_operations ''users'')" "''salary''"]
  by (simp add: eval_defs real_ops_def stod_integral_def numeric_values_def)

subsection \<open>\<open>avg\<close>\<close>

text \<open>
  Claim C6. For every table and column name, \<open>avg\<close> is \<open>sum\<close> divided by \<open>count\<close>, the
  count being the one of \<open>Table::count\<close>; when that count is 0, \<open>avg\<close> returns 0.0
  without dividing and without calling \<open>sum\<close>. What \<open>sum\<close> writes to the error stream
  is written by \<open>avg\<close> when it calls \<open>sum\<close>.
\<close>

theorem Table_avg_sum_div_count:
  "Table_avg ops t column =
     (if Table_count t column = 0 then (of_int_d ops 0, [])
      else (ddiv ops (fst (Table_sum ops t column)) (of_int_d ops (Table_count t column)),
            snd (Table_sum ops t column)))"
  by (simp add: Table_avg_def Let_def split: prod.splits)

text \<open>
  On the table \<open>users\<close> at the end of \<open>main\<close>: the average age is 55 / 2; for the
  unknown name \<open>salary\<close> the count is 0 and the average is 0.
\<close>

theorem Table_avg_sum_div_count_witness:
  "Table_count (the (run main_operations ''users'')) ''age'' = 2
   \<and> Table_avg real_ops (the (run main_operations ''users'')) ''age'' = (55 / 2, [])
   \<and> Table_count (the (run main_operations ''users'')) ''salary'' = 0
   \<and> Table_avg real_ops (the (run main_operations ''users'')) ''salary'' = (0, [])"
  using Table_avg_sum_div_count[of real_ops "the (run main_operations ''users'')" "''age''"]
    Table_avg_sum_div_count[of real_ops "the (run main_operations ''users'')" "''salary''"]
  by (simp add: eval_defs real_ops_def stod_integral_def Table_count_def Table_sum_def)

section \<open>Primary keys\<close>

text \<open>
  A primary-key column that is declared NOT NULL has a non-empty text in every row the
  loop builds: the value cannot be omitted, and an empty value fails the check of the
  column.
\<close>

lemma insert_loop_primary_key:
  assumes ok: "insert_loop cols values Map.empty = Inr rowData"
    and mem: "col \<in> set cols" and pk: "isPrimaryKey col" and nn: "\<not> isNullable col"
  shows "\<exists>v. rowData (getName col) = Some v \<and> v \<noteq> []"
proof (cases "values (getName col)")
  case None
  with insert_loop_missing_fails[of col cols "values" Map.empty] mem pk ok show ?thesis
    by simp
next
  case (Some v)
  have "Column_validate col v"
    using insert_loop_validated[OF ok mem Some] .
  then have "v \<noteq> []"
    using nn by (auto simp add: Column_validate_def)
  moreover have "rowData (getName col) = Some v"
    using insert_loop_stored[OF ok mem] Some by simp
  ultimately show ?thesis by simp
qed

lemma Table_insert_primary_keys:
  assumes "primary_keys_not_null (columns t)" and "primary_keys_present t"
  shows "primary_keys_present (snd (Table_insert t values))"
proof (cases "insert_loop (columns t) values Map.empty")
  case (Inl e)
  then show ?thesis using assms(2) by (simp add: Table_insert_def)
next
  case (Inr rowData)
  have "\<exists>v. rowData (getName col) = Some v \<and> v \<noteq> []"
    if "col \<in> set (columns t)" "isPrimaryKey col" for col
  proof -
    have "\<not> isNullable col"
      using assms(1) that by (auto simp add: primary_keys_not_null_def list_all_iff)
    from insert_loop_primary_key[OF Inr that this] show ?thesis .
  qed
  then have "list_all (primary_key_present (Row rowData)) (columns t)"
    by (fastforce simp add: list_all_iff primary_key_present_def)
  then show ?thesis
    using assms(2) Inr by (simp add: Table_insert_def primary_keys_present_def)
qed

text \<open>
  In a client program whose every \<open>createTable\<close> declares the primary keys NOT NULL,
  every row of every table has its primary keys.
\<close>

lemma exec_primary_keys:
  assumes "\<And>n t. tables n = Some t \<Longrightarrow> primary_keys_kept t"
    and "declares_primary_keys_not_null opn"
    and "exec tables opn n = Some t"
  shows "primary_keys_kept t"
proof (cases opn)
  case (CreateTable m cols)
  then show ?thesis
    using assms
    by (auto simp add: createTable_def Table_ctor_def primary_keys_kept_def
        primary_keys_present_def split: if_splits)
next
  case (Insert m vs)
  then show ?thesis
    using assms Table_insert_primary_keys Table_insert_columns
    by (auto simp add: getTable_def primary_keys_kept_def split: option.splits if_splits)
qed

lemma foldl_exec_primary_keys:
  assumes "\<And>n t. tables n = Some t \<Longrightarrow> primary_keys_kept t"
    and "list_all declares_primary_keys_not_null ops"
    and "foldl exec tables ops n = Some t"
  shows "primary_keys_kept t"
  using assms
proof (induction ops arbitrary: tables n t)
  case Nil
  then show ?case by simp
next
  case (Cons opn ops)
  show ?case
  proof (rule Cons.IH[of "exec tables opn"])
    show "primary_keys_kept t'" if "exec tables opn m = Some t'" for m t'
      using exec_primary_keys[OF Cons.prems(1) _ that] Cons.prems(2) by simp
    show "list_all declares_primary_keys_not_null ops"
      using Cons.prems(2) by simp
    show "foldl exec (exec tables opn) ops n = Some t"
      using Cons.prems(3) by simp
  qed
qed

lemma run_primary_keys_present:
  assumes "list_all declares_primary_keys_not_null ops" and "run ops n = Some t"
  shows "primary_keys_present t"
proof -
  have "foldl exec Map.empty ops n = Some t"
    using assms(2) by (simp add: run_def)
  then have "primary_keys_kept t"
    using foldl_exec_primary_keys[of Map.empty ops n t] assms(1) by simp
  then show ?thesis by (simp add: primary_keys_kept_def)
qed

text \<open>
  Claim C4 does not hold of the code. A primary-key column built with the nullable
  flag set, which is the default of the \<open>Column\<close> constructor, accepts an empty text
  that is supplied: \<open>Column::validate\<close> answers with the nullable flag and never looks
  at the primary-key flag, while the branch for an omitted value does refuse a primary
  key. After \<open>createTable\<close> and one insertion the registry holds a row whose
  primary-key value is empty.
\<close>

theorem primary_key_empty_value_stored:
  "run [CreateTable ''t'' [Column ''id'' IntegerType True True None],
        Insert ''t'' [''id'' \<mapsto> []]] ''t''
   = Some \<lparr>name = ''t'', columns = [Column ''id'' IntegerType True True None],
           rows = [Row [''id'' \<mapsto> []]]\<rparr>"
  by (simp add: eval_defs)

end
